theory Spec2Isabelle
  imports Complex_Main "HOL-Library.Char_ord" "HOL-Library.List_Lexorder"
begin

section \<open>Values read from the loosely typed records\<close>

text \<open>
  The analysis module (\<^verbatim>\<open>analysis/data_loader.py\<close>) works on dictionaries decoded from
  JSON. A numeric field is modelled as \<open>rat option\<close>: \<open>None\<close> is an absent key, and the
  numbers are exact rationals (Python's \<^verbatim>\<open>int\<close> and an idealised \<^verbatim>\<open>float\<close> without
  rounding error). Counts are \<open>nat\<close>, timestamps (epoch milliseconds) are \<open>int\<close>.
\<close>

definition or0 :: "rat option \<Rightarrow> rat" where
  \<comment> \<open>\<^verbatim>\<open>d.get(key) or 0\<close>: an absent or zero value reads as 0\<close>
  "or0 v = (case v of None \<Rightarrow> 0 | Some x \<Rightarrow> x)"

definition or1 :: "rat option \<Rightarrow> rat" where
  \<comment> \<open>\<^verbatim>\<open>d.get(key) or 1\<close>: an absent or zero value reads as 1\<close>
  "or1 v = (case v of None \<Rightarrow> 1 | Some x \<Rightarrow> if x = 0 then 1 else x)"

subsection \<open>Insertion-ordered dictionaries\<close>

text \<open>
  A Python \<^verbatim>\<open>dict\<close> keeps its keys in insertion order; assigning to an existing key
  replaces the value in place. \<open>dict_upd k f d\<close> is the \<^verbatim>\<open>defaultdict\<close> idiom
  \<^verbatim>\<open>acc[k] = f(acc[k])\<close> with default \<open>d\<close> for a key not yet present.
\<close>

fun dict_set :: "'k \<Rightarrow> 'v \<Rightarrow> ('k \<times> 'v) list \<Rightarrow> ('k \<times> 'v) list" where
  "dict_set k v [] = [(k, v)]"
| "dict_set k v ((k', v') # kvs) =
     (if k' = k then (k', v) # kvs else (k', v') # dict_set k v kvs)"

fun dict_upd :: "'k \<Rightarrow> ('v \<Rightarrow> 'v) \<Rightarrow> 'v \<Rightarrow> ('k \<times> 'v) list \<Rightarrow> ('k \<times> 'v) list" where
  "dict_upd k f d [] = [(k, f d)]"
| "dict_upd k f d ((k', v') # kvs) =
     (if k' = k then (k', f v') # kvs else (k', v') # dict_upd k f d kvs)"

definition sorted_desc :: "('a \<Rightarrow> 'b::linorder) \<Rightarrow> 'a list \<Rightarrow> 'a list" where
  \<comment> \<open>\<^verbatim>\<open>sorted(xs, key=f, reverse=True)\<close>: descending and stable\<close>
  "sorted_desc f xs = rev (sort_key f (rev xs))"

definition py_take :: "int \<Rightarrow> 'a list \<Rightarrow> 'a list" where
  \<comment> \<open>the slice \<^verbatim>\<open>xs[:n]\<close>; a negative \<open>n\<close> counts from the end\<close>
  "py_take n xs = (if 0 \<le> n then take (nat n) xs else take (length xs - nat (- n)) xs)"

subsection \<open>Timestamps and calendar periods\<close>

text \<open>
  Of a \<^verbatim>\<open>datetime\<close> the code reads \<^verbatim>\<open>.year\<close> and \<^verbatim>\<open>.strftime("%Y-%m")\<close>.
  The conversion \<^verbatim>\<open>datetime.fromtimestamp(int(ts) / 1000)\<close> depends on the local time
  zone of the process and raises outside the supported range; every function below takes
  it as the parameter \<open>ft\<close>, with \<open>None\<close> for the exception that the code catches.
\<close>

record datetime =
  dt_year :: int
  dt_ym :: string

datatype period = Year int | Month string

instantiation period :: linorder
begin

fun less_eq_period :: "period \<Rightarrow> period \<Rightarrow> bool" where
  "less_eq_period (Year a) (Year b) = (a \<le> b)"
| "less_eq_period (Year a) (Month t) = True"
| "less_eq_period (Month s) (Year b) = False"
| "less_eq_period (Month s) (Month t) = (s \<le> t)"

definition less_period :: "period \<Rightarrow> period \<Rightarrow> bool" where
  "less_period p q = (p \<le> q \<and> \<not> q \<le> p)"

instance
proof
  fix x y z :: period
  show "(x < y) = (x \<le> y \<and> \<not> y \<le> x)"
    by (simp add: less_period_def)
  show "x \<le> x"
    by (cases x) simp_all
  show "x \<le> y \<Longrightarrow> y \<le> z \<Longrightarrow> x \<le> z"
    by (cases x; cases y; cases z) auto
  show "x \<le> y \<Longrightarrow> y \<le> x \<Longrightarrow> x = y"
    by (cases x; cases y) auto
  show "x \<le> y \<or> y \<le> x"
    by (cases x; cases y) auto
qed

end

definition period_of :: "string \<Rightarrow> datetime \<Rightarrow> period" where
  \<comment> \<open>\<^verbatim>\<open>dt.year if freq == "yearly" else dt.strftime("%Y-%m")\<close>\<close>
  "period_of freq dt = (if freq = ''yearly'' then Year (dt_year dt) else Month (dt_ym dt))"

text \<open>
  A concrete clock for evaluating the functions: the proleptic Gregorian calendar in UTC,
  years 1 to 9999 as \<^verbatim>\<open>datetime\<close> supports them.
\<close>

definition digit2 :: "int \<Rightarrow> string" where
  "digit2 n = [''0123456789'' ! nat (n div 10 mod 10), ''0123456789'' ! nat (n mod 10)]"

definition utc_fromtimestamp :: "int \<Rightarrow> datetime option" where
  "utc_fromtimestamp ts =
     (let z = ts div 1000 div 86400 + 719468;
          era = z div 146097;
          doe = z - era * 146097;
          yoe = (doe - doe div 1460 + doe div 36524 - doe div 146096) div 365;
          doy = doe - (365 * yoe + yoe div 4 - yoe div 100);
          mp = (5 * doy + 2) div 153;
          m = (if mp < 10 then mp + 3 else mp - 9);
          y = yoe + era * 400 + (if m \<le> 2 then 1 else 0)
      in if 1 \<le> y \<and> y \<le> 9999
         then Some \<lparr>dt_year = y, dt_ym = digit2 (y div 100) @ digit2 y @ ''-'' @ digit2 m\<rparr>
         else None)"

section \<open>History snapshots and the yearly increments\<close>

record snapshot =
  h_timeStamp :: "int option"
  h_sales :: "rat option"
  h_revenue :: "rat option"
  h_players :: "rat option"
  h_score :: "rat option"
  h_avgPlaytime :: "rat option"
  h_price :: "rat option"
  h_followers :: "rat option"
  h_wishlists :: "rat option"
  h_reviews :: "rat option"

definition usable_dt :: "(int \<Rightarrow> datetime option) \<Rightarrow> snapshot \<Rightarrow> datetime option" where
  \<comment> \<open>the guard shared by the three history loops: \<^verbatim>\<open>if not ts: continue\<close>, then the
      conversion inside \<^verbatim>\<open>try\<close>\<close>
  "usable_dt ft item =
     (case h_timeStamp item of
        None \<Rightarrow> None
      | Some ts \<Rightarrow> if ts = 0 then None else ft ts)"

record increment =
  inc_sales :: rat
  inc_revenue :: rat
  cumulative_sales :: rat
  cumulative_revenue :: rat
  inc_score :: rat

fun collect_by_year ::
  "(int \<Rightarrow> datetime option) \<Rightarrow> snapshot list \<Rightarrow> (int \<times> snapshot) list \<Rightarrow> (int \<times> snapshot) list"
where
  "collect_by_year ft [] by_year = by_year"
| "collect_by_year ft (item # history) by_year =
     (case usable_dt ft item of
        None \<Rightarrow> collect_by_year ft history by_year
      | Some dt \<Rightarrow> collect_by_year ft history (dict_set (dt_year dt) item by_year))"

fun increments_walk ::
  "(int \<times> snapshot) list \<Rightarrow> rat \<Rightarrow> rat \<Rightarrow> int list \<Rightarrow> (int \<times> increment) list"
where
  "increments_walk by_year prev_sales prev_revenue [] = []"
| "increments_walk by_year prev_sales prev_revenue (yr # years) =
     (case map_of by_year yr of
        None \<Rightarrow> increments_walk by_year prev_sales prev_revenue years
      | Some item \<Rightarrow>
          (let cur_sales = or0 (h_sales item);
               cur_revenue = or0 (h_revenue item)
           in (yr, \<lparr>inc_sales = max 0 (cur_sales - prev_sales),
                    inc_revenue = max 0 (cur_revenue - prev_revenue),
                    cumulative_sales = cur_sales,
                    cumulative_revenue = cur_revenue,
                    inc_score = or0 (h_score item)\<rparr>)
              # increments_walk by_year cur_sales cur_revenue years))"

definition get_yearly_increments ::
  "(int \<Rightarrow> datetime option) \<Rightarrow> snapshot list \<Rightarrow> (int \<times> increment) list"
where
  \<comment> \<open>\<^verbatim>\<open>_get_yearly_increments\<close>; the years walked are the keys of \<open>by_year\<close>, so the
      \<open>None\<close> branch of \<open>increments_walk\<close> (a \<^verbatim>\<open>KeyError\<close>) is never taken\<close>
  "get_yearly_increments ft history =
     (let by_year = collect_by_year ft history [];
          years = sort (map fst by_year)
      in increments_walk by_year 0 0 years)"

section \<open>Game records\<close>

record overlap =
  ao_steamId :: "int option"
  ao_name :: "string option"
  ao_link :: "rat option"
  ao_genres :: "string list"
  ao_copiesSold :: "rat option"
  ao_revenue :: "rat option"
  ao_players :: "rat option"

text \<open>
  Only the fields that the aggregations read. An absent list or mapping reads as the
  empty one (\<^verbatim>\<open>g.get("history") or []\<close>); \<open>g_countryData\<close> lists the items of the
  mapping in their order.
\<close>

record game =
  g_history :: "snapshot list"
  g_genres :: "string list"
  g_tags :: "string list"
  g_revenue :: "rat option"
  g_copiesSold :: "rat option"
  g_reviewScore :: "rat option"
  g_reviews :: "rat option"
  g_players :: "rat option"
  g_avgPlaytime :: "rat option"
  g_followers :: "rat option"
  g_wishlists :: "rat option"
  g_owners :: "rat option"
  g_steamPercent :: "rat option"
  g_price :: "rat option"
  g_countryData :: "(string \<times> rat) list"
  g_audienceOverlap :: "overlap list"

section \<open>Yearly trends\<close>

record totals =
  t_revenue :: rat
  t_sales :: rat
  t_game_count :: nat
  t_score_sum :: rat
  t_score_count :: nat

record trend =
  tr_revenue :: rat
  tr_sales :: rat
  tr_game_count :: nat
  tr_avg_score :: rat

definition totals0 :: totals where
  "totals0 = \<lparr>t_revenue = 0, t_sales = 0, t_game_count = 0, t_score_sum = 0, t_score_count = 0\<rparr>"

definition add_increment :: "increment \<Rightarrow> totals \<Rightarrow> totals" where
  \<comment> \<open>the body of the inner loop of \<^verbatim>\<open>get_yearly_trends\<close> on \<^verbatim>\<open>totals[yr]\<close>\<close>
  "add_increment data t =
     \<lparr>t_revenue = t_revenue t + inc_revenue data,
      t_sales = t_sales t + inc_sales data,
      t_game_count = (if inc_sales data > 0 then t_game_count t + 1 else t_game_count t),
      t_score_sum = (if inc_score data > 0 then t_score_sum t + inc_score data else t_score_sum t),
      t_score_count = (if inc_score data > 0 then t_score_count t + 1 else t_score_count t)\<rparr>"

definition trend_of :: "totals \<Rightarrow> trend" where
  "trend_of data =
     \<lparr>tr_revenue = t_revenue data,
      tr_sales = t_sales data,
      tr_game_count = t_game_count data,
      tr_avg_score = (if t_score_count data > 0
                      then t_score_sum data / of_nat (t_score_count data) else 0)\<rparr>"

definition trend_totals ::
  "(int \<Rightarrow> datetime option) \<Rightarrow> game list \<Rightarrow> (int \<times> totals) list"
where
  "trend_totals ft games =
     fold (\<lambda>game totals.
             fold (\<lambda>(yr, data). dict_upd yr (add_increment data) totals0)
                  (get_yearly_increments ft (g_history game)) totals)
          games []"

definition get_yearly_trends ::
  "(int \<Rightarrow> datetime option) \<Rightarrow> game list \<Rightarrow> (int \<times> trend) list"
where
  "get_yearly_trends ft games =
     map (\<lambda>(yr, data). (yr, trend_of data)) (sort_key fst (trend_totals ft games))"

section \<open>Genre and tag statistics\<close>

record cat_acc =
  ca_revenue_sum :: rat
  ca_sales_sum :: rat
  ca_score_sum :: rat
  ca_count :: nat
  ca_score_count :: nat

record cat_stats =
  cs_game_count :: nat
  cs_avg_revenue :: rat
  cs_avg_sales :: rat
  cs_avg_score :: rat
  cs_total_revenue :: rat

definition cat_acc0 :: cat_acc where
  "cat_acc0 = \<lparr>ca_revenue_sum = 0, ca_sales_sum = 0, ca_score_sum = 0, ca_count = 0,
               ca_score_count = 0\<rparr>"

definition add_game :: "game \<Rightarrow> cat_acc \<Rightarrow> cat_acc" where
  \<comment> \<open>the body of the inner loop of \<^verbatim>\<open>get_genre_stats\<close> and \<^verbatim>\<open>get_tag_stats\<close>\<close>
  "add_game g a =
     (let score = or0 (g_reviewScore g)
      in \<lparr>ca_revenue_sum = ca_revenue_sum a + or0 (g_revenue g),
          ca_sales_sum = ca_sales_sum a + or0 (g_copiesSold g),
          ca_score_sum = (if score > 0 then ca_score_sum a + score else ca_score_sum a),
          ca_count = ca_count a + 1,
          ca_score_count = (if score > 0 then ca_score_count a + 1 else ca_score_count a)\<rparr>)"

definition cat_finalize :: "cat_acc \<Rightarrow> cat_stats" where
  "cat_finalize data =
     (let count = ca_count data
      in \<lparr>cs_game_count = count,
          cs_avg_revenue = (if count \<noteq> 0 then ca_revenue_sum data / of_nat count else 0),
          cs_avg_sales = (if count \<noteq> 0 then ca_sales_sum data / of_nat count else 0),
          cs_avg_score = (if ca_score_count data \<noteq> 0
                          then ca_score_sum data / of_nat (ca_score_count data) else 0),
          cs_total_revenue = ca_revenue_sum data\<rparr>)"

definition cat_accumulate :: "(game \<Rightarrow> string list) \<Rightarrow> game list \<Rightarrow> (string \<times> cat_acc) list" where
  "cat_accumulate field games =
     fold (\<lambda>g stats. fold (\<lambda>key. dict_upd key (add_game g) cat_acc0) (field g) stats) games []"

definition get_genre_stats :: "game list \<Rightarrow> (string \<times> cat_stats) list" where
  "get_genre_stats games =
     map (\<lambda>(genre, data). (genre, cat_finalize data))
         (sorted_desc (\<lambda>x. ca_revenue_sum (snd x)) (cat_accumulate g_genres games))"

definition get_tag_stats :: "game list \<Rightarrow> (string \<times> cat_stats) list" where
  "get_tag_stats games =
     map (\<lambda>(tag, data). (tag, cat_finalize data))
         (sorted_desc (\<lambda>x. ca_count (snd x)) (cat_accumulate g_tags games))"

section \<open>History per period\<close>

definition ts_key :: "snapshot \<Rightarrow> int" where
  \<comment> \<open>the sort key \<^verbatim>\<open>x.get("timeStamp", 0)\<close>\<close>
  "ts_key x = (case h_timeStamp x of None \<Rightarrow> 0 | Some ts \<Rightarrow> ts)"

record history_entry =
  he_sales_inc :: rat
  he_revenue_inc :: rat
  he_cumul_sales :: rat
  he_cumul_revenue :: rat
  he_ccu :: rat
  he_score :: rat
  he_playtime :: rat
  he_price :: rat
  he_followers :: rat
  he_wishlists :: rat
  he_reviews :: rat

fun collect_by_period ::
  "(int \<Rightarrow> datetime option) \<Rightarrow> string \<Rightarrow> snapshot list \<Rightarrow> (period \<times> snapshot) list
   \<Rightarrow> (period \<times> snapshot) list"
where
  "collect_by_period ft freq [] by_period = by_period"
| "collect_by_period ft freq (item # history) by_period =
     (case usable_dt ft item of
        None \<Rightarrow> collect_by_period ft freq history by_period
      | Some dt \<Rightarrow> collect_by_period ft freq history (dict_set (period_of freq dt) item by_period))"

fun history_walk ::
  "(period \<times> snapshot) list \<Rightarrow> rat \<Rightarrow> rat \<Rightarrow> period list \<Rightarrow> (period \<times> history_entry) list"
where
  "history_walk by_period prev_sales prev_revenue [] = []"
| "history_walk by_period prev_sales prev_revenue (p # periods) =
     (case map_of by_period p of
        None \<Rightarrow> history_walk by_period prev_sales prev_revenue periods
      | Some item \<Rightarrow>
          (let cur_sales = or0 (h_sales item);
               cur_revenue = or0 (h_revenue item)
           in (p, \<lparr>he_sales_inc = max 0 (cur_sales - prev_sales),
                   he_revenue_inc = max 0 (cur_revenue - prev_revenue),
                   he_cumul_sales = cur_sales,
                   he_cumul_revenue = cur_revenue,
                   he_ccu = or0 (h_players item),
                   he_score = or0 (h_score item),
                   he_playtime = or0 (h_avgPlaytime item),
                   he_price = or0 (h_price item),
                   he_followers = or0 (h_followers item),
                   he_wishlists = or0 (h_wishlists item),
                   he_reviews = or0 (h_reviews item)\<rparr>)
              # history_walk by_period cur_sales cur_revenue periods))"

definition get_history_for_game ::
  "(int \<Rightarrow> datetime option) \<Rightarrow> game \<Rightarrow> string \<Rightarrow> (period \<times> history_entry) list"
where
  "get_history_for_game ft game freq =
     (let history = sort_key ts_key (g_history game);
          by_period = collect_by_period ft freq history []
      in history_walk by_period 0 0 (sort (map fst by_period)))"

section \<open>History aggregated over games\<close>

record bucket =
  b_sales_inc :: "rat list"
  b_revenue_inc :: "rat list"
  b_ccu :: "rat list"
  b_score :: "rat list"
  b_playtime :: "rat list"
  b_price :: "rat list"
  b_followers :: "rat list"
  b_wishlists :: "rat list"

record aggregate =
  ag_sales_inc :: rat
  ag_revenue_inc :: rat
  ag_avg_ccu :: rat
  ag_max_ccu :: rat
  ag_total_ccu :: rat
  ag_avg_score :: rat
  ag_avg_playtime :: rat
  ag_avg_price :: rat
  ag_avg_followers :: rat
  ag_avg_wishlists :: rat
  ag_total_games :: nat

definition bucket0 :: bucket where
  "bucket0 = \<lparr>b_sales_inc = [], b_revenue_inc = [], b_ccu = [], b_score = [], b_playtime = [],
              b_price = [], b_followers = [], b_wishlists = []\<rparr>"

fun collect_in_window ::
  "(int \<Rightarrow> datetime option) \<Rightarrow> string \<Rightarrow> int \<Rightarrow> int \<Rightarrow> snapshot list
   \<Rightarrow> (period \<times> snapshot) list \<Rightarrow> (period \<times> snapshot) list"
where
  "collect_in_window ft freq year_min year_max [] by_period = by_period"
| "collect_in_window ft freq year_min year_max (item # history) by_period =
     (case usable_dt ft item of
        None \<Rightarrow> collect_in_window ft freq year_min year_max history by_period
      | Some dt \<Rightarrow>
          if dt_year dt < year_min \<or> dt_year dt > year_max
          then collect_in_window ft freq year_min year_max history by_period
          else collect_in_window ft freq year_min year_max history
                 (dict_set (period_of freq dt) item by_period))"

definition bucket_append :: "rat \<Rightarrow> rat \<Rightarrow> snapshot \<Rightarrow> bucket \<Rightarrow> bucket" where
  "bucket_append sales_inc revenue_inc item b =
     \<lparr>b_sales_inc = b_sales_inc b @ [sales_inc],
      b_revenue_inc = b_revenue_inc b @ [revenue_inc],
      b_ccu = b_ccu b @ [or0 (h_players item)],
      b_score = b_score b @ [or0 (h_score item)],
      b_playtime = b_playtime b @ [or0 (h_avgPlaytime item)],
      b_price = b_price b @ [or0 (h_price item)],
      b_followers = b_followers b @ [or0 (h_followers item)],
      b_wishlists = b_wishlists b @ [or0 (h_wishlists item)]\<rparr>"

fun aggregate_walk ::
  "(period \<times> snapshot) list \<Rightarrow> rat \<Rightarrow> rat \<Rightarrow> period list \<Rightarrow> (period \<times> bucket) list
   \<Rightarrow> (period \<times> bucket) list"
where
  "aggregate_walk by_period prev_sales prev_revenue [] period_buckets = period_buckets"
| "aggregate_walk by_period prev_sales prev_revenue (p # periods) period_buckets =
     (case map_of by_period p of
        None \<Rightarrow> aggregate_walk by_period prev_sales prev_revenue periods period_buckets
      | Some item \<Rightarrow>
          (let cur_sales = or0 (h_sales item);
               cur_revenue = or0 (h_revenue item)
           in aggregate_walk by_period cur_sales cur_revenue periods
                (dict_upd p (bucket_append (max 0 (cur_sales - prev_sales))
                                           (max 0 (cur_revenue - prev_revenue)) item)
                          bucket0 period_buckets)))"

definition aggregate_game ::
  "(int \<Rightarrow> datetime option) \<Rightarrow> string \<Rightarrow> int \<Rightarrow> int \<Rightarrow> game \<Rightarrow> (period \<times> bucket) list
   \<Rightarrow> (period \<times> bucket) list"
where
  \<comment> \<open>one round of the loop over \<^verbatim>\<open>games\<close>\<close>
  "aggregate_game ft freq year_min year_max game period_buckets =
     (let history = sort_key ts_key (g_history game)
      in if history = [] then period_buckets
         else (let by_period = collect_in_window ft freq year_min year_max history []
               in aggregate_walk by_period 0 0 (sort (map fst by_period)) period_buckets))"

definition avg_pos :: "rat list \<Rightarrow> rat" where
  \<comment> \<open>the local \<^verbatim>\<open>_avg\<close>\<close>
  "avg_pos lst =
     (let lst' = filter (\<lambda>x. x \<noteq> 0 \<and> x > 0) lst
      in if lst' \<noteq> [] then sum_list lst' / of_nat (length lst') else 0)"

fun py_max :: "rat list \<Rightarrow> rat \<Rightarrow> rat" where
  \<comment> \<open>\<^verbatim>\<open>max(xs, default=d)\<close>\<close>
  "py_max [] d = d"
| "py_max (x # xs) d = fold max xs x"

definition aggregate_of :: "bucket \<Rightarrow> aggregate" where
  "aggregate_of buckets =
     (let ccu_list = filter (\<lambda>x. x > 0) (b_ccu buckets)
      in \<lparr>ag_sales_inc = sum_list (b_sales_inc buckets),
          ag_revenue_inc = sum_list (b_revenue_inc buckets),
          ag_avg_ccu = avg_pos (b_ccu buckets),
          ag_max_ccu = py_max ccu_list 0,
          ag_total_ccu = sum_list ccu_list,
          ag_avg_score = avg_pos (b_score buckets),
          ag_avg_playtime = avg_pos (b_playtime buckets),
          ag_avg_price = avg_pos (b_price buckets),
          ag_avg_followers = avg_pos (b_followers buckets),
          ag_avg_wishlists = avg_pos (b_wishlists buckets),
          ag_total_games = length (b_sales_inc buckets)\<rparr>)"

definition period_buckets_of ::
  "(int \<Rightarrow> datetime option) \<Rightarrow> game list \<Rightarrow> string \<Rightarrow> int \<Rightarrow> int \<Rightarrow> (period \<times> bucket) list"
where
  "period_buckets_of ft games freq year_min year_max =
     fold (aggregate_game ft freq year_min year_max) games []"

definition get_history_aggregate ::
  "(int \<Rightarrow> datetime option) \<Rightarrow> game list \<Rightarrow> string \<Rightarrow> int \<Rightarrow> int \<Rightarrow> (period \<times> aggregate) list"
where
  "get_history_aggregate ft games freq year_min year_max =
     map (\<lambda>(period, buckets). (period, aggregate_of buckets))
         (sort_key fst (period_buckets_of ft games freq year_min year_max))"

definition get_history_aggregate_default ::
  "(int \<Rightarrow> datetime option) \<Rightarrow> game list \<Rightarrow> string \<Rightarrow> (period \<times> aggregate) list"
where
  \<comment> \<open>the call with the default bounds \<^verbatim>\<open>year_min=2015, year_max=2026\<close>\<close>
  "get_history_aggregate_default ft games freq = get_history_aggregate ft games freq 2015 2026"

section \<open>Weighted country shares\<close>

definition round_half_even :: "rat \<Rightarrow> int" where
  "round_half_even x =
     (let f = \<lfloor>x\<rfloor>; d = x - of_int f
      in if d < 1 / 2 then f else if d > 1 / 2 then f + 1 else if even f then f else f + 1)"

definition py_round :: "rat \<Rightarrow> nat \<Rightarrow> rat" where
  \<comment> \<open>\<^verbatim>\<open>round(x, n)\<close> on exact numbers: to \<open>n\<close> decimals, ties to even\<close>
  "py_round x n = of_int (round_half_even (x * 10 ^ n)) / 10 ^ n"

definition upper_char :: "char \<Rightarrow> char" where
  "upper_char c =
     (if CHR ''a'' \<le> c \<and> c \<le> CHR ''z'' then char_of (of_char c - (32::nat)) else c)"

definition upper :: "string \<Rightarrow> string" where
  \<comment> \<open>\<^verbatim>\<open>str.upper()\<close> on ASCII text\<close>
  "upper s = map upper_char s"

definition country_label :: "(string \<Rightarrow> string option) \<Rightarrow> string \<Rightarrow> string" where
  \<comment> \<open>\<^verbatim>\<open>f"{COUNTRY_NAMES.get(code, code.upper())} ({code.upper()})"\<close>; the table of
      display names is the parameter \<open>names\<close>\<close>
  "country_label names code =
     (case names code of None \<Rightarrow> upper code | Some n \<Rightarrow> n) @ '' ('' @ upper code @ '')''"

definition record_weight :: "string \<Rightarrow> game \<Rightarrow> rat" where
  "record_weight weight_by g =
     (if weight_by = ''revenue'' then or1 (g_revenue g)
      else if weight_by = ''sales'' then or1 (g_copiesSold g)
      else 1)"

definition country_step ::
  "string \<Rightarrow> game \<Rightarrow> (string \<times> rat) list \<times> rat \<Rightarrow> (string \<times> rat) list \<times> rat"
where
  \<comment> \<open>one round of the loop over \<^verbatim>\<open>games\<close>, on \<^verbatim>\<open>(weighted, total_weight)\<close>\<close>
  "country_step weight_by g acc =
     (let cd = g_countryData g
      in if cd = [] then acc
         else (let w = record_weight weight_by g
               in (fold (\<lambda>(code, pct). dict_upd code (\<lambda>v. v + pct * w) 0) cd (fst acc),
                   snd acc + w)))"

definition country_totals :: "game list \<Rightarrow> string \<Rightarrow> (string \<times> rat) list \<times> rat" where
  "country_totals games weight_by = fold (country_step weight_by) games ([], 0)"

definition country_result :: "game list \<Rightarrow> string \<Rightarrow> (string \<times> rat) list" where
  \<comment> \<open>the local \<^verbatim>\<open>result\<close>: country code to rounded share, largest weighted sum first\<close>
  "country_result games weight_by =
     (let acc = country_totals games weight_by
      in map (\<lambda>(code, val). (code, py_round (val / snd acc) 2)) (sorted_desc snd (fst acc)))"

definition get_country_aggregate ::
  "(string \<Rightarrow> string option) \<Rightarrow> game list \<Rightarrow> string \<Rightarrow> (string \<times> rat) list"
where
  "get_country_aggregate names games weight_by =
     (if snd (country_totals games weight_by) = 0 then []
      else fold (\<lambda>(code, pct). dict_set (country_label names code) pct)
                (py_take 30 (country_result games weight_by)) [])"

section \<open>Activity summary\<close>

definition stats :: "rat list \<Rightarrow> (string \<times> rat) list" where
  \<comment> \<open>the local \<^verbatim>\<open>_stats\<close>; the returned dictionary as its items\<close>
  "stats vals =
     (let vals' = filter (\<lambda>v. v \<noteq> 0 \<and> v > 0) vals
      in if vals' = [] then [(''avg'', 0), (''max'', 0), (''median'', 0), (''total'', 0)]
         else (let vals_sorted = sort vals'
               in [(''avg'', sum_list vals' / of_nat (length vals')),
                   (''max'', py_max vals' 0),
                   (''median'', vals_sorted ! (length vals_sorted div 2)),
                   (''total'', sum_list vals'),
                   (''count'', of_nat (length vals'))]))"

definition get_activity_summary :: "game list \<Rightarrow> (string \<times> (string \<times> rat) list) list" where
  "get_activity_summary games =
     (if games = [] then []
      else [(''players_ccu'', stats (map (\<lambda>g. or0 (g_players g)) games)),
            (''reviews'', stats (map (\<lambda>g. or0 (g_reviews g)) games)),
            (''review_score'', stats (map (\<lambda>g. or0 (g_reviewScore g)) games)),
            (''avg_playtime'', stats (map (\<lambda>g. or0 (g_avgPlaytime g)) games)),
            (''followers'', stats (map (\<lambda>g. or0 (g_followers g)) games)),
            (''wishlists'', stats (map (\<lambda>g. or0 (g_wishlists g)) games)),
            (''owners'', stats (map (\<lambda>g. or0 (g_owners g)) games)),
            (''steam_percent'', stats (map (\<lambda>g. or0 (g_steamPercent g)) games)),
            (''price'', stats (map (\<lambda>g. or0 (g_price g)) games)),
            (''copies_sold'', stats (map (\<lambda>g. or0 (g_copiesSold g)) games)),
            (''revenue'', stats (map (\<lambda>g. or0 (g_revenue g)) games))])"

section \<open>Ranking of audience overlap\<close>

datatype target_name = Name string | Sid "int option"

record overlap_item =
  oi_name :: target_name
  oi_link :: rat
  oi_genres :: "string list"
  oi_copiesSold :: rat
  oi_revenue :: rat
  oi_ccu :: rat

record overlap_row =
  or_steamId :: "int option"
  or_name :: target_name
  or_overlap_game_count :: nat
  or_overlap_pct :: rat
  or_avg_link :: rat
  or_copies_sold :: rat
  or_revenue :: rat
  or_ccu :: rat
  or_reach_score :: rat
  or_genres :: "string list"

definition overlap_item_of :: "overlap \<Rightarrow> overlap_item" where
  "overlap_item_of ao =
     \<lparr>oi_name = (case ao_name ao of None \<Rightarrow> Sid (ao_steamId ao) | Some n \<Rightarrow> Name n),
      oi_link = or0 (ao_link ao),
      oi_genres = ao_genres ao,
      oi_copiesSold = or0 (ao_copiesSold ao),
      oi_revenue = or0 (ao_revenue ao),
      oi_ccu = or0 (ao_players ao)\<rparr>"

definition overlap_step ::
  "overlap \<Rightarrow> (int option \<times> nat) list \<times> (int option \<times> overlap_item list) list
   \<Rightarrow> (int option \<times> nat) list \<times> (int option \<times> overlap_item list) list"
where
  \<comment> \<open>the body of the inner loop, on \<^verbatim>\<open>(overlap_count, overlap_data)\<close>\<close>
  "overlap_step ao acc =
     (if or0 (ao_link ao) > 5 / 100
      then (dict_upd (ao_steamId ao) Suc 0 (fst acc),
            dict_upd (ao_steamId ao) (\<lambda>items. items @ [overlap_item_of ao]) [] (snd acc))
      else acc)"

definition overlap_pool ::
  "game list \<Rightarrow> (int option \<times> nat) list \<times> (int option \<times> overlap_item list) list"
where
  "overlap_pool games = fold (\<lambda>g acc. fold overlap_step (g_audienceOverlap g) acc) games ([], [])"

definition most_common :: "int \<Rightarrow> ('k \<times> nat) list \<Rightarrow> ('k \<times> nat) list" where
  \<comment> \<open>\<^verbatim>\<open>Counter.most_common(n)\<close>: the \<open>n\<close> largest counts, earlier keys first among equal
      counts; nothing for \<open>n \<le> 0\<close>\<close>
  "most_common n counter = take (nat n) (sorted_desc snd counter)"

fun make_row :: "nat \<Rightarrow> int option \<Rightarrow> nat \<Rightarrow> overlap_item list \<Rightarrow> overlap_row option" where
  "make_row total_games sid cnt [] = None"
| "make_row total_games sid cnt (it # its) =
     (let items = it # its;
          avg_link = sum_list (map oi_link items) / of_nat (length items);
          copies_sold = py_max (map oi_copiesSold items) 0;
          revenue = py_max (map oi_revenue items) 0;
          ccu = py_max (map oi_ccu items) 0;
          reach_score = avg_link * copies_sold;
          overlap_pct = (if total_games > 0
                         then py_round (of_nat cnt / of_nat total_games * 100) 1 else 0)
      in Some \<lparr>or_steamId = sid,
               or_name = oi_name it,
               or_overlap_game_count = cnt,
               or_overlap_pct = overlap_pct,
               or_avg_link = py_round avg_link 3,
               or_copies_sold = copies_sold,
               or_revenue = revenue,
               or_ccu = ccu,
               or_reach_score = reach_score,
               or_genres = oi_genres it\<rparr>)"

definition overlap_rows :: "game list \<Rightarrow> int \<Rightarrow> overlap_row list" where
  \<comment> \<open>the local \<^verbatim>\<open>result\<close> before the final sort. A key of \<^verbatim>\<open>overlap_count\<close> always has
      items in \<^verbatim>\<open>overlap_data\<close>, so \<open>make_row\<close> is never called on the empty list\<close>
  "overlap_rows games top_n =
     (let pool = overlap_pool games
      in List.map_filter
           (\<lambda>(sid, cnt). make_row (length games) sid cnt
                            (case map_of (snd pool) sid of None \<Rightarrow> [] | Some items \<Rightarrow> items))
           (most_common (top_n * 2) (fst pool)))"

definition key_fn :: "string \<Rightarrow> overlap_row \<Rightarrow> rat" where
  \<comment> \<open>\<^verbatim>\<open>sort_keys.get(sort_by, sort_keys["reach_score"])\<close>\<close>
  "key_fn sort_by =
     (if sort_by = ''reach_score'' then or_reach_score
      else if sort_by = ''avg_link'' then or_avg_link
      else if sort_by = ''overlap_game_count'' then (\<lambda>x. of_nat (or_overlap_game_count x))
      else if sort_by = ''copies_sold'' then or_copies_sold
      else or_reach_score)"

definition get_audience_overlap_top :: "game list \<Rightarrow> int \<Rightarrow> string \<Rightarrow> overlap_row list" where
  "get_audience_overlap_top games top_n sort_by =
     py_take top_n (sorted_desc (key_fn sort_by) (overlap_rows games top_n))"

section \<open>Notions used to state the properties\<close>

definition year_of :: "(int \<Rightarrow> datetime option) \<Rightarrow> snapshot \<Rightarrow> int option" where
  \<comment> \<open>the calendar year of a snapshot that the history loops do not skip\<close>
  "year_of ft item = map_option dt_year (usable_dt ft item)"

definition year_winner :: "(int \<Rightarrow> datetime option) \<Rightarrow> snapshot list \<Rightarrow> int \<Rightarrow> snapshot" where
  \<comment> \<open>the snapshot of year \<open>yr\<close> that stands last in the list\<close>
  "year_winner ft history yr = last (filter (\<lambda>item. year_of ft item = Some yr) history)"

subsection \<open>Sample records\<close>

definition snap :: "int \<Rightarrow> rat \<Rightarrow> rat \<Rightarrow> rat \<Rightarrow> snapshot" where
  \<comment> \<open>a snapshot with a timestamp, cumulative sales and revenue, and a review score\<close>
  "snap ts s r sc =
     \<lparr>h_timeStamp = Some ts, h_sales = Some s, h_revenue = Some r, h_players = None,
      h_score = Some sc, h_avgPlaytime = None, h_price = None, h_followers = None,
      h_wishlists = None, h_reviews = None\<rparr>"

definition game0 :: game where
  \<comment> \<open>the record with every field absent\<close>
  "game0 =
     \<lparr>g_history = [], g_genres = [], g_tags = [], g_revenue = None, g_copiesSold = None,
      g_reviewScore = None, g_reviews = None, g_players = None, g_avgPlaytime = None,
      g_followers = None, g_wishlists = None, g_owners = None, g_steamPercent = None,
      g_price = None, g_countryData = [], g_audienceOverlap = []\<rparr>"

definition edge :: "int \<Rightarrow> rat \<Rightarrow> rat \<Rightarrow> overlap" where
  \<comment> \<open>an overlap edge with a target, a link strength and the target's copies sold\<close>
  "edge sid link copies =
     \<lparr>ao_steamId = Some sid, ao_name = None, ao_link = Some link, ao_genres = [],
      ao_copiesSold = Some copies, ao_revenue = None, ao_players = None\<rparr>"

subsection \<open>Activity metrics\<close>

definition activity_metrics :: "(string \<times> (game \<Rightarrow> rat option)) list" where
  \<comment> \<open>the fixed list of \<^verbatim>\<open>get_activity_summary\<close>: the key of the result and the field read\<close>
  "activity_metrics =
     [(''players_ccu'', g_players), (''reviews'', g_reviews), (''review_score'', g_reviewScore),
      (''avg_playtime'', g_avgPlaytime), (''followers'', g_followers),
      (''wishlists'', g_wishlists), (''owners'', g_owners),
      (''steam_percent'', g_steamPercent), (''price'', g_price),
      (''copies_sold'', g_copiesSold), (''revenue'', g_revenue)]"

definition positive :: "rat list \<Rightarrow> rat list" where
  \<comment> \<open>the strictly positive values of a list, in their order\<close>
  "positive xs = filter (\<lambda>x. 0 < x) xs"

definition positive_mean :: "rat list \<Rightarrow> rat" where
  \<comment> \<open>the arithmetic mean of the strictly positive values, 0 when there are none\<close>
  "positive_mean xs =
     (if positive xs = [] then 0 else sum_list (positive xs) / of_nat (length (positive xs)))"

section \<open>Properties\<close>

subsection \<open>Dictionaries\<close>

lemma map_of_dict_set:
  "map_of (dict_set k v d) k' = (if k' = k then Some v else map_of d k')"
  by (induction d) auto

lemma keys_dict_set:
  "map fst (dict_set k v d) = (if k \<in> fst ` set d then map fst d else map fst d @ [k])"
  by (induction d) (auto simp: rev_image_eqI)

lemma set_keys_dict_set: "fst ` set (dict_set k v d) = insert k (fst ` set d)"
  using arg_cong[OF keys_dict_set[of k v d], of set] by (auto split: if_splits)

lemma distinct_dict_set: "distinct (map fst d) \<Longrightarrow> distinct (map fst (dict_set k v d))"
  by (simp add: keys_dict_set)

lemma map_of_dict_upd:
  "map_of (dict_upd k f z d) k' =
     (if k' = k then Some (f (case map_of d k of None \<Rightarrow> z | Some v \<Rightarrow> v)) else map_of d k')"
  by (induction d) auto

lemma keys_dict_upd:
  "map fst (dict_upd k f z d) = (if k \<in> fst ` set d then map fst d else map fst d @ [k])"
  by (induction d) (auto simp: rev_image_eqI)

lemma set_keys_dict_upd: "fst ` set (dict_upd k f z d) = insert k (fst ` set d)"
  using arg_cong[OF keys_dict_upd[of k f z d], of set] by (auto split: if_splits)

lemma distinct_dict_upd: "distinct (map fst d) \<Longrightarrow> distinct (map fst (dict_upd k f z d))"
  by (simp add: keys_dict_upd)

subsection \<open>The yearly increments\<close>

lemma distinct_collect_by_year:
  "distinct (map fst acc) \<Longrightarrow> distinct (map fst (collect_by_year ft h acc))"
  by (induction h arbitrary: acc) (auto simp: distinct_dict_set split: option.splits)

lemma map_of_collect_by_year:
  "map_of (collect_by_year ft h acc) yr =
     (if filter (\<lambda>item. year_of ft item = Some yr) h = [] then map_of acc yr
      else Some (year_winner ft h yr))"
proof (induction h arbitrary: acc)
  case Nil
  then show ?case by simp
next
  case (Cons item h)
  show ?case
  proof (cases "usable_dt ft item")
    case None
    then show ?thesis using Cons[of acc] by (simp add: year_of_def year_winner_def)
  next
    case (Some dt)
    then show ?thesis using Cons[of "dict_set (dt_year dt) item acc"]
      by (auto simp: year_of_def year_winner_def map_of_dict_set)
  qed
qed

lemma increments_walk_nonneg:
  "(yr, e) \<in> set (increments_walk d ps pr ys) \<Longrightarrow> 0 \<le> inc_sales e \<and> 0 \<le> inc_revenue e"
  by (induction ys arbitrary: ps pr) (auto simp: Let_def split: option.splits)

lemma history_walk_nonneg:
  "(p, e) \<in> set (history_walk d ps pr ys) \<Longrightarrow> 0 \<le> he_sales_inc e \<and> 0 \<le> he_revenue_inc e"
  by (induction ys arbitrary: ps pr) (auto simp: Let_def split: option.splits)

text \<open>
  Claim C2. Every entry that the increment calculation emits has a non-negative sales
  increment and a non-negative revenue increment, whatever the history: both in
  \<^verbatim>\<open>_get_yearly_increments\<close> and in \<^verbatim>\<open>get_history_for_game\<close>. The sample history reports
  cumulative sales 50, then 30, then 60; the increment of the middle year is 0.
\<close>

theorem increments_never_negative:
  "(\<forall>(yr, e) \<in> set (get_yearly_increments ft history). 0 \<le> inc_sales e \<and> 0 \<le> inc_revenue e) \<and>
   (\<forall>(p, e) \<in> set (get_history_for_game ft game freq).
      0 \<le> he_sales_inc e \<and> 0 \<le> he_revenue_inc e)"
  unfolding get_yearly_increments_def get_history_for_game_def Let_def
  using increments_walk_nonneg history_walk_nonneg by blast

lemma increments_walk_length:
  "\<forall>y \<in> set ys. map_of d y \<noteq> None \<Longrightarrow> map fst (increments_walk d ps pr ys) = ys"
  by (induction ys arbitrary: ps pr) (auto simp: Let_def split: option.splits)

lemma increments_walk_nth:
  assumes "\<forall>y \<in> set ys. map_of d y \<noteq> None" and "i < length ys"
  shows "snd (increments_walk d ps pr ys ! i) =
     (let item = the (map_of d (ys ! i));
          bs = (if i = 0 then ps else or0 (h_sales (the (map_of d (ys ! (i - 1))))));
          br = (if i = 0 then pr else or0 (h_revenue (the (map_of d (ys ! (i - 1))))))
      in \<lparr>inc_sales = max 0 (or0 (h_sales item) - bs),
          inc_revenue = max 0 (or0 (h_revenue item) - br),
          cumulative_sales = or0 (h_sales item),
          cumulative_revenue = or0 (h_revenue item),
          inc_score = or0 (h_score item)\<rparr>)"
  using assms
proof (induction ys arbitrary: ps pr i)
  case Nil
  then show ?case by simp
next
  case (Cons y ys)
  then obtain item where it: "map_of d y = Some item" by auto
  show ?case
  proof (cases i)
    case 0
    then show ?thesis using it by (simp add: Let_def)
  next
    case (Suc j)
    have "snd (increments_walk d (or0 (h_sales item)) (or0 (h_revenue item)) ys ! j) =
      (let item' = the (map_of d (ys ! j));
          bs = (if j = 0 then or0 (h_sales item) else or0 (h_sales (the (map_of d (ys ! (j - 1))))));
          br = (if j = 0 then or0 (h_revenue item) else or0 (h_revenue (the (map_of d (ys ! (j - 1))))))
      in \<lparr>inc_sales = max 0 (or0 (h_sales item') - bs),
          inc_revenue = max 0 (or0 (h_revenue item') - br),
          cumulative_sales = or0 (h_sales item'),
          cumulative_revenue = or0 (h_revenue item'),
          inc_score = or0 (h_score item')\<rparr>)"
      using Cons.IH[of j] Cons.prems Suc by simp
    then show ?thesis using it Suc
      by (cases j) (simp_all add: Let_def)
  qed
qed

subsection \<open>The sample clock and sample histories\<close>

lemma utc_2019_06: "utc_fromtimestamp 1559347200000 = Some \<lparr>dt_year = 2019, dt_ym = ''2019-06''\<rparr>"
  by code_simp
lemma utc_2020_01: "utc_fromtimestamp 1577923200000 = Some \<lparr>dt_year = 2020, dt_ym = ''2020-01''\<rparr>"
  by code_simp
lemma utc_2020_12: "utc_fromtimestamp 1606780800000 = Some \<lparr>dt_year = 2020, dt_ym = ''2020-12''\<rparr>"
  by code_simp
lemma utc_2021_01: "utc_fromtimestamp 1609545600000 = Some \<lparr>dt_year = 2021, dt_ym = ''2021-01''\<rparr>"
  by code_simp

lemmas utc_facts = utc_2019_06 utc_2020_01 utc_2020_12 utc_2021_01

lemma sample_increments:
  "get_yearly_increments utc_fromtimestamp
     [snap 1559347200000 50 500 0, snap 1577923200000 30 400 0, snap 1609545600000 60 900 0] =
   [(2019, \<lparr>inc_sales = 50, inc_revenue = 500, cumulative_sales = 50, cumulative_revenue = 500, inc_score = 0\<rparr>),
    (2020, \<lparr>inc_sales = 0, inc_revenue = 0, cumulative_sales = 30, cumulative_revenue = 400, inc_score = 0\<rparr>),
    (2021, \<lparr>inc_sales = 30, inc_revenue = 500, cumulative_sales = 60, cumulative_revenue = 900, inc_score = 0\<rparr>)]"
  by (simp add: get_yearly_increments_def usable_dt_def snap_def utc_facts or0_def)

lemma sample_history_for_game:
  "map (\<lambda>(p, e). (p, he_sales_inc e, he_revenue_inc e))
     (get_history_for_game utc_fromtimestamp
        (game0\<lparr>g_history := [snap 1609545600000 60 900 0, snap 1559347200000 50 500 0, snap 1577923200000 30 400 0]\<rparr>) ''yearly'') =
   [(Year 2019, 50, 500), (Year 2020, 0, 0), (Year 2021, 30, 500)]"
  by (simp add: get_history_for_game_def game0_def ts_key_def period_of_def usable_dt_def snap_def utc_facts or0_def)

theorem increments_never_negative_witness:
  "(2020, \<lparr>inc_sales = 0, inc_revenue = 0, cumulative_sales = 30, cumulative_revenue = 400, inc_score = 0\<rparr>)
     \<in> set (get_yearly_increments utc_fromtimestamp
       [snap 1559347200000 50 500 0, snap 1577923200000 30 400 0, snap 1609545600000 60 900 0]) \<and>
   (0::rat) \<le> inc_sales \<lparr>inc_sales = 0, inc_revenue = 0, cumulative_sales = 30, cumulative_revenue = 400, inc_score = 0\<rparr>"
  using increments_never_negative[of utc_fromtimestamp
       "[snap 1559347200000 50 500 0, snap 1577923200000 30 400 0, snap 1609545600000 60 900 0]"]
  by (simp add: sample_increments)

text \<open>
  Claim C3. \<^verbatim>\<open>_get_yearly_increments\<close> emits its entries in strictly ascending order of the
  year. The cumulative values of an entry are the raw values of the snapshot that won its
  year, and its increments are computed against the cumulative values of the entry just
  before it (against 0 for the first entry), never against a sum of earlier increments.
  The function is a pure function of the history, so recomputing gives the same result.
\<close>

theorem baseline_is_previous_cumulative:
  "sorted_wrt (<) (map fst (get_yearly_increments ft history)) \<and>
   (\<forall>i < length (get_yearly_increments ft history).
      cumulative_sales (snd (get_yearly_increments ft history ! i)) =
        or0 (h_sales (year_winner ft history (fst (get_yearly_increments ft history ! i)))) \<and>
      cumulative_revenue (snd (get_yearly_increments ft history ! i)) =
        or0 (h_revenue (year_winner ft history (fst (get_yearly_increments ft history ! i)))) \<and>
      inc_sales (snd (get_yearly_increments ft history ! i)) =
        max 0 (cumulative_sales (snd (get_yearly_increments ft history ! i)) -
               (if i = 0 then 0
                else cumulative_sales (snd (get_yearly_increments ft history ! (i - 1))))) \<and>
      inc_revenue (snd (get_yearly_increments ft history ! i)) =
        max 0 (cumulative_revenue (snd (get_yearly_increments ft history ! i)) -
               (if i = 0 then 0
                else cumulative_revenue (snd (get_yearly_increments ft history ! (i - 1))))))"
proof -
  define d where "d = collect_by_year ft history []"
  define ys where "ys = sort (map fst d)"
  define out where "out = get_yearly_increments ft history"
  have out: "out = increments_walk d 0 0 ys"
    by (simp add: out_def get_yearly_increments_def d_def ys_def Let_def)
  have dist: "distinct (map fst d)"
    unfolding d_def by (rule distinct_collect_by_year) simp
  have keys: "\<forall>y \<in> set ys. map_of d y \<noteq> None"
    by (simp add: ys_def map_of_eq_None_iff)
  have fst_out: "map fst out = ys"
    unfolding out by (rule increments_walk_length[OF keys])
  have len: "length out = length ys"
    using arg_cong[OF fst_out, of length] by simp
  have sorted: "sorted_wrt (<) (map fst out)"
    unfolding fst_out ys_def using dist by (simp add: strict_sorted_iff)
  have win: "the (map_of d y) = year_winner ft history y" if "y \<in> set ys" for y
    using keys that map_of_collect_by_year[of ft history "[]" y]
    by (auto simp: d_def split: if_splits)
  have step: "cumulative_sales (snd (out ! i)) = or0 (h_sales (year_winner ft history (fst (out ! i)))) \<and>
      cumulative_revenue (snd (out ! i)) = or0 (h_revenue (year_winner ft history (fst (out ! i)))) \<and>
      inc_sales (snd (out ! i)) =
        max 0 (cumulative_sales (snd (out ! i)) -
               (if i = 0 then 0 else cumulative_sales (snd (out ! (i - 1))))) \<and>
      inc_revenue (snd (out ! i)) =
        max 0 (cumulative_revenue (snd (out ! i)) -
               (if i = 0 then 0 else cumulative_revenue (snd (out ! (i - 1)))))"
    if i: "i < length out" for i
  proof -
    have i': "i < length ys" using i len by simp
    have fst_i: "fst (out ! i) = ys ! i"
      using arg_cong[OF fst_out, of "\<lambda>l. l ! i"] i by simp
    note cur = increments_walk_nth[OF keys i', of 0 0, folded out]
    have wi: "the (map_of d (ys ! i)) = year_winner ft history (ys ! i)"
      using win i' by simp
    show ?thesis
    proof (cases i)
      case 0
      then show ?thesis using cur wi fst_i by (simp add: Let_def)
    next
      case (Suc j)
      then have j: "j < length ys" using i' by simp
      note prev = increments_walk_nth[OF keys j, of 0 0, folded out]
      show ?thesis using cur prev wi fst_i Suc by (simp add: Let_def)
    qed
  qed
  show ?thesis using sorted step unfolding out_def by blast
qed

theorem baseline_is_previous_cumulative_witness:
  "2 < length (get_yearly_increments utc_fromtimestamp
         [snap 1559347200000 50 500 0, snap 1577923200000 30 400 0, snap 1609545600000 60 900 0]) \<and>
   cumulative_sales (snd (get_yearly_increments utc_fromtimestamp
         [snap 1559347200000 50 500 0, snap 1577923200000 30 400 0, snap 1609545600000 60 900 0] ! 1)) = 30 \<and>
   inc_sales (snd (get_yearly_increments utc_fromtimestamp
         [snap 1559347200000 50 500 0, snap 1577923200000 30 400 0, snap 1609545600000 60 900 0] ! 2)) =
     max 0 (60 - 30)"
proof -
  let ?h = "[snap 1559347200000 50 500 0, snap 1577923200000 30 400 0, snap 1609545600000 60 900 0]"
  have len: "2 < length (get_yearly_increments utc_fromtimestamp ?h)"
    by (simp add: sample_increments)
  have "inc_sales (snd (get_yearly_increments utc_fromtimestamp ?h ! 2)) =
        max 0 (cumulative_sales (snd (get_yearly_increments utc_fromtimestamp ?h ! 2)) -
               (if (2::nat) = 0 then 0
                else cumulative_sales (snd (get_yearly_increments utc_fromtimestamp ?h ! (2 - 1)))))"
    using baseline_is_previous_cumulative[of utc_fromtimestamp ?h] len by blast
  then show ?thesis using len by (simp add: sample_increments)
qed

end
